theory Spec2Isabelle
  imports Main
begin

section \<open>Errors\<close>

text \<open>
  Go's \<open>error\<close> values. The four sentinels are the ones of the provider interface
  (\<open>gitprovider.ErrNotFound\<close> and so on); \<open>ValidationError\<close> and \<open>HTTPError\<close> stand for
  the remaining error values of the taxonomy; \<open>Errorf m e\<close> is
  \<open>fmt.Errorf("m: %w", e)\<close>, an error wrapping \<open>e\<close>; \<open>Panic\<close> is a run-time panic
  (a nil pointer dereference), carried as a value.
\<close>

datatype error =
    ErrNotFound
  | ErrAlreadyExists
  | ErrDestructiveCallDisallowed
  | ErrNoProviderSupport
  | ValidationError string
  | HTTPError string
  | Errorf string error
  | Panic string

text \<open>\<open>errors.Is\<close>: the error itself or one it wraps, at any depth, is the target.\<close>

fun errors_Is :: "error \<Rightarrow> error \<Rightarrow> bool" where
  "errors_Is (Errorf m e) target = (Errorf m e = target \<or> errors_Is e target)"
| "errors_Is e target = (e = target)"

section \<open>The wrapped SDK\<close>

text \<open>
  The types of \<open>code.gitea.io/sdk/gitea\<close> that the adapter touches, with the fields it
  reads or writes. A Go pointer that may be nil is an \<open>option\<close>.
\<close>

record Repository =
  repo_Name :: string
  repo_Description :: string
  repo_Private :: bool
  repo_DefaultBranch :: string

record Response =
  StatusCode :: nat

record CreateRepoOption =
  create_Name :: string
  create_Description :: string
  create_Private :: bool
  create_AutoInit :: bool
  create_License :: string
  create_DefaultBranch :: string

record EditRepoOption =
  edit_Name :: "string option"
  edit_Description :: "string option"
  edit_Private :: "bool option"
  edit_DefaultBranch :: "string option"

record ListOptions =
  Page :: int
  PageSize :: int

record ListOrgReposOptions =
  ListOptions :: ListOptions

text \<open>
  The SDK client (\<open>*gitea.Client\<close>) is an external collaborator: a record of its six
  calls, each a function of the hosted service's state \<open>'w\<close> that returns the SDK's
  triple \<open>(object, httpResponse, error)\<close> and the service's next state.
\<close>

record 'w sdk =
  GetRepo :: "string \<Rightarrow> string \<Rightarrow> 'w \<Rightarrow> (Repository option \<times> Response option \<times> error option) \<times> 'w"
  ListOrgRepos :: "string \<Rightarrow> ListOrgReposOptions \<Rightarrow> 'w
     \<Rightarrow> (Repository option list \<times> Response option \<times> error option) \<times> 'w"
  CreateOrgRepo :: "string \<Rightarrow> CreateRepoOption \<Rightarrow> 'w
     \<Rightarrow> (Repository option \<times> Response option \<times> error option) \<times> 'w"
  CreateRepo :: "CreateRepoOption \<Rightarrow> 'w \<Rightarrow> (Repository option \<times> Response option \<times> error option) \<times> 'w"
  EditRepo :: "string \<Rightarrow> string \<Rightarrow> EditRepoOption \<Rightarrow> 'w
     \<Rightarrow> (Repository option \<times> Response option \<times> error option) \<times> 'w"
  DeleteRepo :: "string \<Rightarrow> string \<Rightarrow> 'w \<Rightarrow> (Response option \<times> error option) \<times> 'w"

text \<open>
  The world the adapter runs in: the service's state and the log of the SDK calls issued
  so far, in order. The log is how "no SDK call is made" is stated.
\<close>

datatype sdk_call =
    CallGetRepo string string
  | CallListOrgRepos string ListOrgReposOptions
  | CallCreateOrgRepo string CreateRepoOption
  | CallCreateRepo CreateRepoOption
  | CallEditRepo string string EditRepoOption
  | CallDeleteRepo string string

record 'w world =
  server :: 'w
  calls :: "sdk_call list"

definition invoke :: "sdk_call \<Rightarrow> ('w \<Rightarrow> 'a \<times> 'w) \<Rightarrow> 'w world \<Rightarrow> 'a \<times> 'w world" where
  "invoke k f w = (case f (server w) of (res, s') \<Rightarrow> (res, \<lparr>server = s', calls = calls w @ [k]\<rparr>))"

section \<open>The provider interface\<close>

text \<open>
  Modelled from the spec: the reference types of the \<open>gitprovider\<close> package are not under
  src/. A reference identifies a repository by owning entity and name, qualified by a
  domain; \<open>GetIdentity\<close> is the owning entity and \<open>GetRepository\<close> the name.
\<close>

record OrganizationRef =
  Domain :: string
  Organization :: string

record OrgRepositoryRef =
  OrganizationRef :: OrganizationRef
  RepositoryName :: string

definition GetIdentity :: "OrgRepositoryRef \<Rightarrow> string" where
  "GetIdentity ref = Organization (OrganizationRef ref)"

definition GetRepository :: "OrgRepositoryRef \<Rightarrow> string" where
  "GetRepository ref = RepositoryName ref"

text \<open>
  Modelled from the spec: \<open>RepositoryInfo\<close> is not under src/. It is the neutral
  description of the desired state (visibility, description, default branch), each field
  optional until defaulted.
\<close>

datatype RepositoryVisibility = Public | Internal | Private

record RepositoryInfo =
  info_Description :: "string option"
  info_DefaultBranch :: "string option"
  info_Visibility :: "RepositoryVisibility option"

text \<open>
  Modelled from the spec: the option structs of \<open>gitprovider\<close> are not under src/. Create
  reads two fields of the assembled options, both optional: auto-init and the license
  template. A create or reconcile option is a value of the same shape.
\<close>

record RepositoryCreateOptions =
  AutoInit :: "bool option"
  LicenseTemplate :: "string option"

record 'tc ClientOptions =
  opt_Domain :: "string option"
  EnableDestructiveAPICalls :: "bool option"
  TransportChain :: 'tc

section \<open>The client context and the repository handle\<close>

text \<open>\<open>clientContext\<close> (client.go): the SDK handle, the domain and the destructive-actions flag.\<close>

record 'w clientContext =
  ctx_c :: "'w sdk"
  domain :: string
  destructiveActions :: bool

text \<open>
  \<open>Client\<close> (client.go): the context and the three scoped clients, each of which holds
  nothing but the same context.
\<close>

record 'w Client =
  clientContext :: "'w clientContext"
  orgs :: "'w clientContext"
  orgRepos :: "'w clientContext"
  userRepos :: "'w clientContext"

text \<open>
  Modelled from the spec: the handle type and its constructor \<open>newOrgRepository\<close> are not
  under src/. A repository handle wraps the SDK's repository object plus its reference
  (and the client context it was obtained from). The object is kept as the pointer the
  constructor was given.
\<close>

record 'w orgRepository =
  h_clientContext :: "'w clientContext"
  h_r :: "Repository option"
  h_ref :: OrgRepositoryRef

definition newOrgRepository ::
  "'w clientContext \<Rightarrow> Repository option \<Rightarrow> OrgRepositoryRef \<Rightarrow> 'w orgRepository" where
  "newOrgRepository ctx apiObj ref = \<lparr>h_clientContext = ctx, h_r = apiObj, h_ref = ref\<rparr>"

text \<open>
  The functions of this repository that the source files call and that are not under
  src/, taken as parameters: the reference and API-object validators, the HTTP error
  classifier, the translation to the SDK's create request, the validation and defaulting
  of the desired state, the assembly of the create options, the equality of desired and
  actual state, and the three methods of a handle (\<open>Get\<close> reads the state, \<open>Set\<close> stages
  a desired state in the handle, \<open>Update\<close> pushes it). \<open>Set\<close> and \<open>Update\<close> mutate the handle
  in Go; here they return it.
\<close>

record 'w helpers =
  validateOrgRepositoryRef :: "OrgRepositoryRef \<Rightarrow> string \<Rightarrow> error option"
  validateOrganizationRef :: "OrganizationRef \<Rightarrow> string \<Rightarrow> error option"
  validateRepositoryAPI :: "Repository option \<Rightarrow> error option"
  handleHTTPError :: "Response option \<Rightarrow> error option \<Rightarrow> error option"
  repositoryToAPI :: "RepositoryInfo \<Rightarrow> OrgRepositoryRef \<Rightarrow> CreateRepoOption"
  ValidateAndDefaultInfo :: "RepositoryInfo \<Rightarrow> error + RepositoryInfo"
  MakeRepositoryCreateOptions :: "RepositoryCreateOptions list \<Rightarrow> error + RepositoryCreateOptions"
  Equals :: "RepositoryInfo \<Rightarrow> RepositoryInfo \<Rightarrow> bool"
  handle_Get :: "'w orgRepository \<Rightarrow> RepositoryInfo"
  handle_Set :: "'w orgRepository \<Rightarrow> RepositoryInfo \<Rightarrow> error option \<times> 'w orgRepository"
  handle_Update :: "'w orgRepository \<Rightarrow> 'w world \<Rightarrow> (error option \<times> 'w orgRepository) \<times> 'w world"

section \<open>client_repositories_org.go\<close>

text \<open>
  The \<open>context.Context\<close> argument is passed along and never read in the two source files;
  the model leaves it out. A Go result \<open>(obj, err)\<close> of the helpers that hand on what the
  SDK gave them is a pair of options; a result that is either \<open>(nil, err)\<close> or
  \<open>(obj, nil)\<close> by construction is a sum.
\<close>

definition knownLicenseTemplateMap :: "(string \<times> string) list" where
  "knownLicenseTemplateMap =
     [(''apache-2.0'', ''Apache-2.0''), (''mit'', ''MIT''), (''gpl-3.0'', ''GPL-3.0-only'')]"

text \<open>Indexing a Go map: the zero value (the empty string) for a key that is absent.\<close>

definition map_index :: "(string \<times> string) list \<Rightarrow> string \<Rightarrow> string" where
  "map_index m k = (case map_of m k of None \<Rightarrow> [] | Some v \<Rightarrow> v)"

definition validateRepositoryAPIResp ::
  "'w helpers \<Rightarrow> Repository option \<Rightarrow> Response option \<Rightarrow> error option
     \<Rightarrow> Repository option \<times> error option" where
  "validateRepositoryAPIResp H apiObj res err =
     (case err of
        Some e \<Rightarrow> (None, handleHTTPError H res (Some e))
      | None \<Rightarrow>
          (case validateRepositoryAPI H apiObj of
             Some e \<Rightarrow> (None, Some e)
           | None \<Rightarrow> (apiObj, None)))"

fun validateRepositoryObjects_loop :: "'w helpers \<Rightarrow> Repository option list \<Rightarrow> error option" where
  "validateRepositoryObjects_loop H [] = None"
| "validateRepositoryObjects_loop H (apiObj # rest) =
     (case validateRepositoryAPI H apiObj of
        Some e \<Rightarrow> Some e
      | None \<Rightarrow> validateRepositoryObjects_loop H rest)"

definition validateRepositoryObjects ::
  "'w helpers \<Rightarrow> Repository option list \<Rightarrow> error + Repository option list" where
  "validateRepositoryObjects H apiObjs =
     (case validateRepositoryObjects_loop H apiObjs of
        Some e \<Rightarrow> Inl e
      | None \<Rightarrow> Inr apiObjs)"

definition getRepo ::
  "'w helpers \<Rightarrow> 'w sdk \<Rightarrow> string \<Rightarrow> string \<Rightarrow> 'w world
     \<Rightarrow> (Repository option \<times> error option) \<times> 'w world" where
  "getRepo H c owner repo w =
     (case invoke (CallGetRepo owner repo) (GetRepo c owner repo) w of
        ((apiObj, res, err), w') \<Rightarrow> (validateRepositoryAPIResp H apiObj res err, w'))"

definition createRepo ::
  "'w helpers \<Rightarrow> 'w sdk \<Rightarrow> string \<Rightarrow> CreateRepoOption \<Rightarrow> 'w world
     \<Rightarrow> (Repository option \<times> error option) \<times> 'w world" where
  "createRepo H c orgName apiOpts w =
     (if orgName \<noteq> [] then
        (case invoke (CallCreateOrgRepo orgName apiOpts) (CreateOrgRepo c orgName apiOpts) w of
           ((apiObj, res, err), w') \<Rightarrow> (validateRepositoryAPIResp H apiObj res err, w'))
      else
        (case invoke (CallCreateRepo apiOpts) (CreateRepo c apiOpts) w of
           ((apiObj, res, err), w') \<Rightarrow> (validateRepositoryAPIResp H apiObj res err, w')))"

definition updateRepo ::
  "'w helpers \<Rightarrow> 'w sdk \<Rightarrow> string \<Rightarrow> string \<Rightarrow> EditRepoOption \<Rightarrow> 'w world
     \<Rightarrow> (Repository option \<times> error option) \<times> 'w world" where
  "updateRepo H c owner repo req w =
     (case invoke (CallEditRepo owner repo req) (EditRepo c owner repo req) w of
        ((apiObj, res, err), w') \<Rightarrow> (validateRepositoryAPIResp H apiObj res err, w'))"

definition deleteRepo ::
  "'w helpers \<Rightarrow> 'w sdk \<Rightarrow> string \<Rightarrow> string \<Rightarrow> bool \<Rightarrow> 'w world \<Rightarrow> error option \<times> 'w world" where
  "deleteRepo H c owner repo destructive w =
     (if \<not> destructive then
        (Some (Errorf ''cannot delete repository'' ErrDestructiveCallDisallowed), w)
      else
        (case invoke (CallDeleteRepo owner repo) (DeleteRepo c owner repo) w of
           ((resp, err), w') \<Rightarrow> (handleHTTPError H resp err, w')))"

text \<open>
  Lines 170 to 176 of \<open>createRepository\<close>: the option overrides applied to the request
  that \<open>repositoryToAPI\<close> built.
\<close>

definition applyCreateOptions :: "RepositoryCreateOptions \<Rightarrow> CreateRepoOption \<Rightarrow> CreateRepoOption" where
  "applyCreateOptions o' apiOpts =
     (let apiOpts1 = (case AutoInit o' of
                        Some a \<Rightarrow> apiOpts\<lparr>create_AutoInit := a\<rparr>
                      | None \<Rightarrow> apiOpts)
      in (case LicenseTemplate o' of
            Some t \<Rightarrow> apiOpts1\<lparr>create_License := map_index knownLicenseTemplateMap t\<rparr>
          | None \<Rightarrow> apiOpts1))"

definition createRepository ::
  "'w helpers \<Rightarrow> 'w sdk \<Rightarrow> OrgRepositoryRef \<Rightarrow> string \<Rightarrow> RepositoryInfo
     \<Rightarrow> RepositoryCreateOptions list \<Rightarrow> 'w world
     \<Rightarrow> (Repository option \<times> error option) \<times> 'w world" where
  "createRepository H c ref orgName req opts w =
     (case ValidateAndDefaultInfo H req of
        Inl e \<Rightarrow> ((None, Some e), w)
      | Inr req' \<Rightarrow>
          (case MakeRepositoryCreateOptions H opts of
             Inl e \<Rightarrow> ((None, Some e), w)
           | Inr o' \<Rightarrow>
               createRepo H c orgName (applyCreateOptions o' (repositoryToAPI H req' ref)) w))"

text \<open>
  Modelled from the spec: \<open>allPages\<close> is not under src/. It is the page-by-page loop:
  it runs \<open>fn\<close> for a page; a failed page aborts the listing with that error; a page
  for which \<open>fn\<close> reports no response ends the listing; otherwise it moves \<open>opts\<close> to the
  next page and goes on. \<open>fn\<close> is a closure over variables of its caller, so it is a
  function of a state \<open>'st\<close> that holds them, and \<open>upd\<close> is how the \<open>ListOptions\<close> that
  \<open>opts\<close> points to is written in that state. The loop need not end: \<open>None\<close> is a run
  that never returns.
\<close>

partial_function (option) allPages ::
  "((ListOptions \<Rightarrow> ListOptions) \<Rightarrow> 'st \<Rightarrow> 'st)
     \<Rightarrow> ('st \<Rightarrow> (Response option \<times> error option) \<times> 'st) \<Rightarrow> 'st \<Rightarrow> (error option \<times> 'st) option" where
  "allPages upd fn st =
     (case fn st of
        ((resp, err), st') \<Rightarrow>
          (case err of
             Some e \<Rightarrow> Some (Some e, st')
           | None \<Rightarrow>
               (case resp of
                  None \<Rightarrow> Some (None, st')
                | Some r \<Rightarrow> allPages upd fn (upd (\<lambda>lo. lo\<lparr>Page := Page lo + 1\<rparr>) st'))))"

declare allPages.simps [code]

text \<open>
  The closure of \<open>listOrgRepos\<close> (lines 141 to 149). Its state is the three variables it
  captures: \<open>opts\<close>, \<open>apiObjs\<close> and the world.
\<close>

definition listOrgRepos_page ::
  "'w sdk \<Rightarrow> string \<Rightarrow> ListOrgReposOptions \<times> Repository option list \<times> 'w world
     \<Rightarrow> (Response option \<times> error option) \<times> (ListOrgReposOptions \<times> Repository option list \<times> 'w world)" where
  "listOrgRepos_page c org st =
     (case st of
        (opts, apiObjs, w) \<Rightarrow>
          (case invoke (CallListOrgRepos org opts) (ListOrgRepos c org opts) w of
             ((pageObjs, resp, listErr), w') \<Rightarrow>
               (if length pageObjs > 0 then ((resp, listErr), (opts, apiObjs @ pageObjs, w'))
                else ((None, None), (opts, apiObjs, w')))))"

definition listOrgRepos_upd ::
  "(ListOptions \<Rightarrow> ListOptions) \<Rightarrow> ListOrgReposOptions \<times> Repository option list \<times> 'w world
     \<Rightarrow> ListOrgReposOptions \<times> Repository option list \<times> 'w world" where
  "listOrgRepos_upd f st =
     (case st of (opts, apiObjs, w) \<Rightarrow> (opts\<lparr>ListOptions := f (ListOptions opts)\<rparr>, apiObjs, w))"

definition listOrgRepos ::
  "'w helpers \<Rightarrow> 'w clientContext \<Rightarrow> string \<Rightarrow> 'w world
     \<Rightarrow> ((error + Repository option list) \<times> 'w world) option" where
  "listOrgRepos H c org w =
     (case allPages listOrgRepos_upd (listOrgRepos_page (ctx_c c) org)
             (\<lparr>ListOptions = \<lparr>Page = 0, PageSize = 0\<rparr>\<rparr>, [], w) of
        None \<Rightarrow> None
      | Some (err, (opts, apiObjs, w')) \<Rightarrow>
          (case err of
             Some e \<Rightarrow> Some (Inl e, w')
           | None \<Rightarrow> Some (validateRepositoryObjects H apiObjs, w')))"

text \<open>The options of the listing's call number \<open>n\<close>, counted from zero.\<close>

definition page_opts :: "nat \<Rightarrow> ListOrgReposOptions" where
  "page_opts n = \<lparr>ListOptions = \<lparr>Page = int n, PageSize = 0\<rparr>\<rparr>"

definition Get ::
  "'w helpers \<Rightarrow> 'w clientContext \<Rightarrow> OrgRepositoryRef \<Rightarrow> 'w world
     \<Rightarrow> (error + 'w orgRepository) \<times> 'w world" where
  "Get H c ref w =
     (case validateOrgRepositoryRef H ref (domain c) of
        Some e \<Rightarrow> (Inl e, w)
      | None \<Rightarrow>
          (case getRepo H (ctx_c c) (GetIdentity ref) (GetRepository ref) w of
             ((apiObj, err), w') \<Rightarrow>
               (case err of
                  Some e \<Rightarrow> (Inl e, w')
                | None \<Rightarrow> (Inr (newOrgRepository c apiObj ref), w'))))"

text \<open>
  The loop of \<open>List\<close> (lines 75 to 82). Reading \<open>apiObj.Name\<close> of a nil object panics.
\<close>

fun List_loop ::
  "'w clientContext \<Rightarrow> OrganizationRef \<Rightarrow> Repository option list \<Rightarrow> 'w orgRepository list
     \<Rightarrow> error + 'w orgRepository list" where
  "List_loop c ref [] repos = Inr repos"
| "List_loop c ref (apiObj # rest) repos =
     (case apiObj of
        None \<Rightarrow> Inl (Panic ''nil pointer dereference'')
      | Some r \<Rightarrow>
          List_loop c ref rest
            (repos @ [newOrgRepository c apiObj
                        \<lparr>OrganizationRef = ref, RepositoryName = repo_Name r\<rparr>]))"

definition List ::
  "'w helpers \<Rightarrow> 'w clientContext \<Rightarrow> OrganizationRef \<Rightarrow> 'w world
     \<Rightarrow> ((error + 'w orgRepository list) \<times> 'w world) option" where
  "List H c ref w =
     (case validateOrganizationRef H ref (domain c) of
        Some e \<Rightarrow> Some (Inl e, w)
      | None \<Rightarrow>
          (case listOrgRepos H c (Organization ref) w of
             None \<Rightarrow> None
           | Some (Inl e, w') \<Rightarrow> Some (Inl e, w')
           | Some (Inr apiObjs, w') \<Rightarrow> Some (List_loop c ref apiObjs [], w')))"

definition Create ::
  "'w helpers \<Rightarrow> 'w clientContext \<Rightarrow> OrgRepositoryRef \<Rightarrow> RepositoryInfo
     \<Rightarrow> RepositoryCreateOptions list \<Rightarrow> 'w world \<Rightarrow> (error + 'w orgRepository) \<times> 'w world" where
  "Create H c ref req opts w =
     (case validateOrgRepositoryRef H ref (domain c) of
        Some e \<Rightarrow> (Inl e, w)
      | None \<Rightarrow>
          (case createRepository H (ctx_c c) ref (Organization (OrganizationRef ref)) req opts w of
             ((apiObj, err), w') \<Rightarrow>
               (case err of
                  Some e \<Rightarrow> (Inl e, w')
                | None \<Rightarrow> (Inr (newOrgRepository c apiObj ref), w'))))"

definition reconcileRepository ::
  "'w helpers \<Rightarrow> 'w orgRepository \<Rightarrow> RepositoryInfo \<Rightarrow> 'w world
     \<Rightarrow> ((bool \<times> error option) \<times> 'w orgRepository) \<times> 'w world" where
  "reconcileRepository H actual req w =
     (if Equals H req (handle_Get H actual) then (((False, None), actual), w)
      else
        (case handle_Set H actual req of
           (Some e, actual') \<Rightarrow> (((False, Some e), actual'), w)
         | (None, actual') \<Rightarrow>
             (case handle_Update H actual' w of
                ((err, actual''), w') \<Rightarrow> (((True, err), actual''), w'))))"

definition toCreateOpts :: "RepositoryCreateOptions list \<Rightarrow> RepositoryCreateOptions list" where
  "toCreateOpts opts = foldl (\<lambda>createOpts opt. createOpts @ [opt]) [] opts"

text \<open>
  \<open>Reconcile\<close> returns the triple \<open>(repository, actionTaken, error)\<close>. The handle it returns
  after the generic reconciliation is the one \<open>Get\<close> gave, which \<open>Set\<close> and \<open>Update\<close> have
  written through its pointer.
\<close>

definition Reconcile ::
  "'w helpers \<Rightarrow> 'w clientContext \<Rightarrow> OrgRepositoryRef \<Rightarrow> RepositoryInfo
     \<Rightarrow> RepositoryCreateOptions list \<Rightarrow> 'w world
     \<Rightarrow> ('w orgRepository option \<times> bool \<times> error option) \<times> 'w world" where
  "Reconcile H c ref req opts w =
     (case ValidateAndDefaultInfo H req of
        Inl e \<Rightarrow> ((None, False, Some e), w)
      | Inr req' \<Rightarrow>
          (case Get H c ref w of
             (Inl e, w') \<Rightarrow>
               (if errors_Is e ErrNotFound then
                  (case Create H c ref req' (toCreateOpts opts) w' of
                     (Inl e', w'') \<Rightarrow> ((None, True, Some e'), w'')
                   | (Inr resp, w'') \<Rightarrow> ((Some resp, True, None), w''))
                else ((None, False, Some e), w'))
           | (Inr actual, w') \<Rightarrow>
               (case reconcileRepository H actual req' w' of
                  (((actionTaken, err), actual'), w'') \<Rightarrow> ((Some actual', actionTaken, err), w''))))"





section \<open>client.go\<close>

definition DefaultDomain :: string where
  "DefaultDomain = ''gitea.com''"

definition ProviderID_const :: string where
  "ProviderID_const = ''gitea''"

text \<open>\<open>strings.HasPrefix\<close> and \<open>strings.Contains\<close> of Go's standard library.\<close>

fun strings_HasPrefix :: "string \<Rightarrow> string \<Rightarrow> bool" where
  "strings_HasPrefix s [] = True"
| "strings_HasPrefix [] (p # ps) = False"
| "strings_HasPrefix (x # xs) (p # ps) = (x = p \<and> strings_HasPrefix xs ps)"

fun strings_Contains :: "string \<Rightarrow> string \<Rightarrow> bool" where
  "strings_Contains [] substr = (substr = [])"
| "strings_Contains (x # xs) substr =
     (strings_HasPrefix (x # xs) substr \<or> strings_Contains xs substr)"

definition newClient :: "'w sdk \<Rightarrow> string \<Rightarrow> bool \<Rightarrow> 'w Client" where
  "newClient c dmn destructive =
     (let ctx = \<lparr>ctx_c = c, domain = dmn, destructiveActions = destructive\<rparr>
      in \<lparr>clientContext = ctx, orgs = ctx, orgRepos = ctx, userRepos = ctx\<rparr>)"

text \<open>
  \<open>NewClient\<close>. The three functions it calls outside the two source files are
  parameters: \<open>gitprovider.MakeClientOptions\<close> (\<open>mk\<close>),
  \<open>gitprovider.BuildClientFromTransportChain\<close> (\<open>build\<close>) and the SDK's
  \<open>gitea.NewClient\<close> (\<open>sdkNew\<close>), given the base URL, the HTTP client and the token.
\<close>

definition NewClient ::
  "('f list \<Rightarrow> error + 'tc ClientOptions) \<Rightarrow> ('tc \<Rightarrow> error + 'h)
     \<Rightarrow> (string \<Rightarrow> 'h \<Rightarrow> string \<Rightarrow> error + 'w sdk) \<Rightarrow> string \<Rightarrow> 'f list \<Rightarrow> error + 'w Client" where
  "NewClient mk build sdkNew token optFns =
     (case mk optFns of
        Inl e \<Rightarrow> Inl e
      | Inr opts \<Rightarrow>
          (case build (TransportChain opts) of
             Inl e \<Rightarrow> Inl e
           | Inr httpClient \<Rightarrow>
               (let dmn = (case opt_Domain opts of Some d \<Rightarrow> d | None \<Rightarrow> DefaultDomain);
                    baseURL = (if \<not> strings_Contains dmn ''://'' then ''https://'' @ dmn @ ''/''
                               else dmn)
                in (case sdkNew baseURL httpClient token of
                      Inl e \<Rightarrow> Inl e
                    | Inr gt \<Rightarrow>
                        (let destructive = (case EnableDestructiveAPICalls opts of
                                              Some b \<Rightarrow> b
                                            | None \<Rightarrow> False)
                         in Inr (newClient gt dmn destructive))))))"

definition SupportedDomain :: "'w Client \<Rightarrow> string" where
  "SupportedDomain cl = domain (clientContext cl)"

definition ProviderID :: "'w Client \<Rightarrow> string" where
  "ProviderID cl = ProviderID_const"

definition Raw :: "'w Client \<Rightarrow> 'w sdk" where
  "Raw cl = ctx_c (clientContext cl)"

text \<open>\<open>HasTokenPermission\<close>: the permission is an integer enumeration of the interface.\<close>

definition HasTokenPermission ::
  "'w Client \<Rightarrow> int \<Rightarrow> 'w world \<Rightarrow> (bool \<times> error option) \<times> 'w world" where
  "HasTokenPermission cl permission w = ((False, Some ErrNoProviderSupport), w)"

section \<open>Reference validation, from the spec\<close>

text \<open>
  Modelled from the spec: \<open>validateOrganizationRef\<close> and \<open>validateOrgRepositoryRef\<close> are
  not under src/. The invariant of a reference is that its domain matches the client's
  configured domain and that owner and name are syntactically valid per the hosting
  service's rules; a reference that breaks it is a validation error. The rules are not
  given, so \<open>valid\<close> is a parameter.
\<close>

definition validateOrganizationRef_spec ::
  "(string \<Rightarrow> bool) \<Rightarrow> OrganizationRef \<Rightarrow> string \<Rightarrow> error option" where
  "validateOrganizationRef_spec valid ref expectedDomain =
     (if \<not> valid (Organization ref) then Some (ValidationError ''invalid organization'')
      else if Domain ref \<noteq> expectedDomain then Some (ValidationError ''domain not supported'')
      else None)"

definition validateOrgRepositoryRef_spec ::
  "(string \<Rightarrow> bool) \<Rightarrow> OrgRepositoryRef \<Rightarrow> string \<Rightarrow> error option" where
  "validateOrgRepositoryRef_spec valid ref expectedDomain =
     (if \<not> valid (RepositoryName ref) then Some (ValidationError ''invalid repository name'')
      else validateOrganizationRef_spec valid (OrganizationRef ref) expectedDomain)"

fun is_ValidationError :: "error \<Rightarrow> bool" where
  "is_ValidationError (ValidationError m) = True"
| "is_ValidationError e = False"

section \<open>A concrete service and concrete helpers\<close>

text \<open>
  An in-memory double of the SDK, a backend that stores what it is given: its state is
  the list of repositories by owner and name, latest entry first. A create request for
  the authenticated user files the repository under the owner \<open>''me''\<close>. The listing is
  paged two repositories at a time.
\<close>

type_synonym mem = "((string \<times> string) \<times> Repository) list"

definition mem_response :: "nat \<Rightarrow> Response option" where
  "mem_response n = Some \<lparr>StatusCode = n\<rparr>"

definition mem_GetRepo ::
  "string \<Rightarrow> string \<Rightarrow> mem \<Rightarrow> (Repository option \<times> Response option \<times> error option) \<times> mem" where
  "mem_GetRepo owner repo s =
     (case map_of s (owner, repo) of
        None \<Rightarrow> ((None, mem_response 404, Some (HTTPError ''404 Not Found'')), s)
      | Some r \<Rightarrow> ((Some r, mem_response 200, None), s))"

definition mem_ListOrgRepos ::
  "string \<Rightarrow> ListOrgReposOptions \<Rightarrow> mem
     \<Rightarrow> (Repository option list \<times> Response option \<times> error option) \<times> mem" where
  "mem_ListOrgRepos org opts s =
     ((take 2 (drop (2 * nat (Page (ListOptions opts)))
                 (map (\<lambda>kv. Some (snd kv)) (filter (\<lambda>kv. fst (fst kv) = org) s))),
       mem_response 200, None), s)"

definition mem_create ::
  "string \<Rightarrow> CreateRepoOption \<Rightarrow> mem \<Rightarrow> (Repository option \<times> Response option \<times> error option) \<times> mem" where
  "mem_create owner opt s =
     (case map_of s (owner, create_Name opt) of
        Some r \<Rightarrow> ((None, mem_response 409, Some (HTTPError ''409 Conflict'')), s)
      | None \<Rightarrow>
          (let r = \<lparr>repo_Name = create_Name opt, repo_Description = create_Description opt,
                    repo_Private = create_Private opt,
                    repo_DefaultBranch = create_DefaultBranch opt\<rparr>
           in ((Some r, mem_response 201, None), ((owner, create_Name opt), r) # s)))"

definition mem_edit :: "EditRepoOption \<Rightarrow> Repository \<Rightarrow> Repository" where
  "mem_edit opt r =
     \<lparr>repo_Name = (case edit_Name opt of Some n \<Rightarrow> n | None \<Rightarrow> repo_Name r),
      repo_Description = (case edit_Description opt of Some d \<Rightarrow> d | None \<Rightarrow> repo_Description r),
      repo_Private = (case edit_Private opt of Some b \<Rightarrow> b | None \<Rightarrow> repo_Private r),
      repo_DefaultBranch =
        (case edit_DefaultBranch opt of Some b \<Rightarrow> b | None \<Rightarrow> repo_DefaultBranch r)\<rparr>"

definition mem_EditRepo ::
  "string \<Rightarrow> string \<Rightarrow> EditRepoOption \<Rightarrow> mem
     \<Rightarrow> (Repository option \<times> Response option \<times> error option) \<times> mem" where
  "mem_EditRepo owner repo opt s =
     (case map_of s (owner, repo) of
        None \<Rightarrow> ((None, mem_response 404, Some (HTTPError ''404 Not Found'')), s)
      | Some r \<Rightarrow> ((Some (mem_edit opt r), mem_response 200, None), ((owner, repo), mem_edit opt r) # s))"

definition mem_DeleteRepo :: "string \<Rightarrow> string \<Rightarrow> mem \<Rightarrow> (Response option \<times> error option) \<times> mem" where
  "mem_DeleteRepo owner repo s =
     ((mem_response 204, None), filter (\<lambda>kv. fst kv \<noteq> (owner, repo)) s)"

definition mem_sdk :: "mem sdk" where
  "mem_sdk =
     \<lparr>GetRepo = mem_GetRepo, ListOrgRepos = mem_ListOrgRepos, CreateOrgRepo = mem_create,
      CreateRepo = mem_create ''me'', EditRepo = mem_EditRepo, DeleteRepo = mem_DeleteRepo\<rparr>"

text \<open>
  A double whose listing gives one repository on the first page and fails on every later
  page, the way the SDK reports a failure: no objects, the response, the error.
\<close>

definition one_repo :: Repository where
  "one_repo = \<lparr>repo_Name = ''one'', repo_Description = [], repo_Private = False,
                repo_DefaultBranch = ''main''\<rparr>"

definition failing_ListOrgRepos ::
  "string \<Rightarrow> ListOrgReposOptions \<Rightarrow> mem
     \<Rightarrow> (Repository option list \<times> Response option \<times> error option) \<times> mem" where
  "failing_ListOrgRepos org opts s =
     (if Page (ListOptions opts) = 0 then (([Some one_repo], mem_response 200, None), s)
      else (([], mem_response 500, Some (HTTPError ''500 Internal Server Error'')), s))"

definition failing_sdk :: "mem sdk" where
  "failing_sdk = mem_sdk\<lparr>ListOrgRepos := failing_ListOrgRepos\<rparr>"

definition failing_ctx :: "mem clientContext" where
  "failing_ctx = \<lparr>ctx_c = failing_sdk, domain = ''gitea.com'', destructiveActions = False\<rparr>"

text \<open>
  Modelled from the spec: concrete helpers, for running the code on concrete inputs. The
  HTTP classifier maps a failed call by its status to NotFound, AlreadyExists or a
  wrapped error; an API object is valid when its required field, the name, is present;
  the desired state is defaulted field by field and compared by equality; the mapping
  between a repository's state and the SDK's objects is field by field (visibility,
  description, default branch); \<open>Update\<close> pushes the handle's object with \<open>updateRepo\<close>.
\<close>

definition demo_handleHTTPError :: "Response option \<Rightarrow> error option \<Rightarrow> error option" where
  "demo_handleHTTPError res err =
     (case err of
        None \<Rightarrow> None
      | Some e \<Rightarrow>
          (case res of
             None \<Rightarrow> Some e
           | Some r \<Rightarrow>
               (if StatusCode r = 404 then Some ErrNotFound
                else if StatusCode r = 409 then Some ErrAlreadyExists
                else Some (Errorf ''request failed'' e))))"

definition demo_validateRepositoryAPI :: "Repository option \<Rightarrow> error option" where
  "demo_validateRepositoryAPI apiObj =
     (case apiObj of
        None \<Rightarrow> Some (ValidationError ''no object'')
      | Some r \<Rightarrow> (if repo_Name r = [] then Some (ValidationError ''Name is required'') else None))"

definition demo_valid :: "string \<Rightarrow> bool" where
  "demo_valid name = (name \<noteq> [])"

definition demo_repositoryToAPI :: "RepositoryInfo \<Rightarrow> OrgRepositoryRef \<Rightarrow> CreateRepoOption" where
  "demo_repositoryToAPI info ref =
     \<lparr>create_Name = RepositoryName ref,
      create_Description = (case info_Description info of Some d \<Rightarrow> d | None \<Rightarrow> []),
      create_Private = (info_Visibility info \<noteq> Some Public),
      create_AutoInit = False,
      create_License = [],
      create_DefaultBranch = (case info_DefaultBranch info of Some b \<Rightarrow> b | None \<Rightarrow> [])\<rparr>"

definition demo_ValidateAndDefaultInfo :: "RepositoryInfo \<Rightarrow> error + RepositoryInfo" where
  "demo_ValidateAndDefaultInfo info =
     (if info_Visibility info = Some Internal then Inl (ValidationError ''Visibility'')
      else Inr \<lparr>info_Description = (case info_Description info of Some d \<Rightarrow> Some d | None \<Rightarrow> Some []),
                info_DefaultBranch =
                  (case info_DefaultBranch info of Some b \<Rightarrow> Some b | None \<Rightarrow> Some ''main''),
                info_Visibility =
                  (case info_Visibility info of Some v \<Rightarrow> Some v | None \<Rightarrow> Some Private)\<rparr>)"

definition demo_merge :: "RepositoryCreateOptions \<Rightarrow> RepositoryCreateOptions \<Rightarrow> RepositoryCreateOptions" where
  "demo_merge acc opt =
     \<lparr>AutoInit = (case AutoInit opt of Some a \<Rightarrow> Some a | None \<Rightarrow> AutoInit acc),
      LicenseTemplate = (case LicenseTemplate opt of Some t \<Rightarrow> Some t | None \<Rightarrow> LicenseTemplate acc)\<rparr>"

definition demo_MakeRepositoryCreateOptions ::
  "RepositoryCreateOptions list \<Rightarrow> error + RepositoryCreateOptions" where
  "demo_MakeRepositoryCreateOptions opts =
     Inr (foldl demo_merge \<lparr>AutoInit = None, LicenseTemplate = None\<rparr> opts)"

definition demo_repositoryFromAPI :: "Repository \<Rightarrow> RepositoryInfo" where
  "demo_repositoryFromAPI r =
     \<lparr>info_Description = Some (repo_Description r),
      info_DefaultBranch = Some (repo_DefaultBranch r),
      info_Visibility = Some (if repo_Private r then Private else Public)\<rparr>"

definition demo_Get :: "mem orgRepository \<Rightarrow> RepositoryInfo" where
  "demo_Get h =
     (case h_r h of
        None \<Rightarrow> \<lparr>info_Description = None, info_DefaultBranch = None, info_Visibility = None\<rparr>
      | Some r \<Rightarrow> demo_repositoryFromAPI r)"

definition demo_repositoryInfoToAPIObj :: "RepositoryInfo \<Rightarrow> Repository \<Rightarrow> Repository" where
  "demo_repositoryInfoToAPIObj info r =
     r\<lparr>repo_Description := (case info_Description info of Some d \<Rightarrow> d | None \<Rightarrow> repo_Description r),
       repo_DefaultBranch :=
         (case info_DefaultBranch info of Some b \<Rightarrow> b | None \<Rightarrow> repo_DefaultBranch r),
       repo_Private := (case info_Visibility info of Some v \<Rightarrow> v \<noteq> Public | None \<Rightarrow> repo_Private r)\<rparr>"

definition demo_Set :: "mem orgRepository \<Rightarrow> RepositoryInfo \<Rightarrow> error option \<times> mem orgRepository" where
  "demo_Set h info =
     (if info_Visibility info = Some Internal then (Some (ValidationError ''Visibility''), h)
      else (None, h\<lparr>h_r := map_option (demo_repositoryInfoToAPIObj info) (h_r h)\<rparr>))"

definition demo_base :: "mem helpers" where
  "demo_base =
     \<lparr>validateOrgRepositoryRef = validateOrgRepositoryRef_spec demo_valid,
      validateOrganizationRef = validateOrganizationRef_spec demo_valid,
      validateRepositoryAPI = demo_validateRepositoryAPI,
      handleHTTPError = demo_handleHTTPError,
      repositoryToAPI = demo_repositoryToAPI,
      ValidateAndDefaultInfo = demo_ValidateAndDefaultInfo,
      MakeRepositoryCreateOptions = demo_MakeRepositoryCreateOptions,
      Equals = (\<lambda>a b. a = b),
      handle_Get = demo_Get,
      handle_Set = demo_Set,
      handle_Update = (\<lambda>h w. ((None, h), w))\<rparr>"

definition demo_Update ::
  "mem orgRepository \<Rightarrow> mem world \<Rightarrow> (error option \<times> mem orgRepository) \<times> mem world" where
  "demo_Update h w =
     (case h_r h of
        None \<Rightarrow> ((Some (Panic ''nil pointer dereference''), h), w)
      | Some r \<Rightarrow>
          (case updateRepo demo_base (ctx_c (h_clientContext h)) (GetIdentity (h_ref h))
                  (GetRepository (h_ref h))
                  \<lparr>edit_Name = Some (repo_Name r), edit_Description = Some (repo_Description r),
                   edit_Private = Some (repo_Private r),
                   edit_DefaultBranch = Some (repo_DefaultBranch r)\<rparr> w of
             ((apiObj, err), w') \<Rightarrow>
               (case err of
                  Some e \<Rightarrow> ((Some e, h), w')
                | None \<Rightarrow> ((None, h\<lparr>h_r := apiObj\<rparr>), w'))))"

definition demo_helpers :: "mem helpers" where
  "demo_helpers = demo_base\<lparr>handle_Update := demo_Update\<rparr>"

definition demo_ctx :: "mem clientContext" where
  "demo_ctx = \<lparr>ctx_c = mem_sdk, domain = ''gitea.com'', destructiveActions = False\<rparr>"

definition demo_org :: OrganizationRef where
  "demo_org = \<lparr>Domain = ''gitea.com'', Organization = ''acme''\<rparr>"

definition demo_ref :: OrgRepositoryRef where
  "demo_ref = \<lparr>OrganizationRef = demo_org, RepositoryName = ''tools''\<rparr>"

definition demo_repo :: Repository where
  "demo_repo = \<lparr>repo_Name = ''tools'', repo_Description = ''build tools'', repo_Private = True,
                 repo_DefaultBranch = ''main''\<rparr>"

definition demo_info :: RepositoryInfo where
  "demo_info = \<lparr>info_Description = Some ''build tools'', info_DefaultBranch = None,
                 info_Visibility = None\<rparr>"

definition demo_world :: "mem \<Rightarrow> mem world" where
  "demo_world s = \<lparr>server = s, calls = []\<rparr>"

text \<open>A double that stores nothing: every edit is refused.\<close>

definition readonly_sdk :: "mem sdk" where
  "readonly_sdk =
     mem_sdk\<lparr>EditRepo := (\<lambda>owner repo opt s.
                 ((None, mem_response 403, Some (HTTPError ''403 Forbidden'')), s))\<rparr>"

definition demo_public_repo :: Repository where
  "demo_public_repo = demo_repo\<lparr>repo_Private := False\<rparr>"

definition demo_defaulted_info :: RepositoryInfo where
  "demo_defaulted_info = \<lparr>info_Description = Some ''build tools'', info_DefaultBranch = Some ''main'',
                           info_Visibility = Some Private\<rparr>"

definition demo_handle :: "mem clientContext \<Rightarrow> Repository \<Rightarrow> mem orgRepository" where
  "demo_handle c r = \<lparr>h_clientContext = c, h_r = Some r, h_ref = demo_ref\<rparr>"

definition demo_edit :: EditRepoOption where
  "demo_edit = \<lparr>edit_Name = Some ''tools'', edit_Description = Some ''build tools'',
                 edit_Private = Some True, edit_DefaultBranch = Some ''main''\<rparr>"

definition demo_create :: CreateRepoOption where
  "demo_create = \<lparr>create_Name = ''tools'', create_Description = ''build tools'',
                   create_Private = True, create_AutoInit = False, create_License = [],
                   create_DefaultBranch = ''main''\<rparr>"

definition demo_ro_ctx :: "mem clientContext" where
  "demo_ro_ctx = \<lparr>ctx_c = readonly_sdk, domain = ''gitea.com'', destructiveActions = False\<rparr>"

definition demo_forbidden :: error where
  "demo_forbidden = Errorf ''request failed'' (HTTPError ''403 Forbidden'')"

text \<open>Doubles of the three collaborators of \<open>NewClient\<close>, for a self-hosted domain.\<close>

definition demo_mk :: "unit list \<Rightarrow> error + unit ClientOptions" where
  "demo_mk optFns = Inr \<lparr>opt_Domain = Some ''git.example.com:6443'',
                          EnableDestructiveAPICalls = None, TransportChain = ()\<rparr>"

definition demo_build :: "unit \<Rightarrow> error + unit" where
  "demo_build tc = Inr ()"

definition demo_sdkNew :: "string \<Rightarrow> unit \<Rightarrow> string \<Rightarrow> error + mem sdk" where
  "demo_sdkNew baseURL httpClient token =
     (if baseURL = ''https://git.example.com:6443/'' then Inr mem_sdk else Inl (HTTPError baseURL))"

text \<open>References of another domain, and one with no repository name.\<close>

definition foreign_org :: OrganizationRef where
  "foreign_org = \<lparr>Domain = ''github.com'', Organization = ''acme''\<rparr>"

definition foreign_ref :: OrgRepositoryRef where
  "foreign_ref = \<lparr>OrganizationRef = foreign_org, RepositoryName = ''tools''\<rparr>"

definition nameless_ref :: OrgRepositoryRef where
  "nameless_ref = \<lparr>OrganizationRef = demo_org, RepositoryName = []\<rparr>"





section \<open>Evaluation and basic facts\<close>

lemmas code_defs = Get_def getRepo_def validateRepositoryAPIResp_def invoke_def newOrgRepository_def
  Create_def createRepository_def createRepo_def applyCreateOptions_def reconcileRepository_def
  Reconcile_def updateRepo_def GetIdentity_def GetRepository_def toCreateOpts_def
  knownLicenseTemplateMap_def map_index_def

lemmas demo_defs = demo_helpers_def demo_base_def demo_ctx_def demo_ref_def demo_org_def
  demo_repo_def demo_info_def demo_world_def mem_sdk_def mem_GetRepo_def mem_create_def
  mem_EditRepo_def mem_edit_def mem_response_def demo_handleHTTPError_def
  demo_validateRepositoryAPI_def demo_valid_def demo_repositoryToAPI_def
  demo_ValidateAndDefaultInfo_def demo_MakeRepositoryCreateOptions_def demo_merge_def
  demo_repositoryFromAPI_def demo_Get_def demo_repositoryInfoToAPIObj_def demo_Set_def
  demo_Update_def validateOrgRepositoryRef_spec_def validateOrganizationRef_spec_def
  readonly_sdk_def demo_public_repo_def demo_defaulted_info_def demo_handle_def demo_edit_def
  demo_create_def demo_ro_ctx_def demo_forbidden_def foreign_org_def foreign_ref_def
  nameless_ref_def one_repo_def failing_ctx_def failing_sdk_def failing_ListOrgRepos_def

lemma toCreateOpts_aux: "foldl (\<lambda>createOpts opt. createOpts @ [opt]) acc opts = acc @ opts"
  by (induction opts arbitrary: acc) simp_all

lemma toCreateOpts_id: "toCreateOpts opts = opts"
  by (simp add: toCreateOpts_def toCreateOpts_aux)

text \<open>The concrete helpers and the in-memory service, evaluated.\<close>

lemma demo_validate: "ValidateAndDefaultInfo demo_helpers demo_info = Inr demo_defaulted_info"
  by (simp add: demo_defs)

lemma demo_validate_bad:
  "ValidateAndDefaultInfo demo_helpers (demo_info\<lparr>info_Visibility := Some Internal\<rparr>)
     = Inl (ValidationError ''Visibility'')"
  by (simp add: demo_defs)

lemma demo_Get_private:
  "Get demo_helpers demo_ctx demo_ref \<lparr>server = [((''acme'', ''tools''), demo_repo)], calls = k\<rparr>
     = (Inr (demo_handle demo_ctx demo_repo),
        \<lparr>server = [((''acme'', ''tools''), demo_repo)], calls = k @ [CallGetRepo ''acme'' ''tools'']\<rparr>)"
  by (simp add: code_defs demo_defs Let_def)

lemma demo_Get_public:
  "Get demo_helpers demo_ctx demo_ref \<lparr>server = [((''acme'', ''tools''), demo_public_repo)], calls = k\<rparr>
     = (Inr (demo_handle demo_ctx demo_public_repo),
        \<lparr>server = [((''acme'', ''tools''), demo_public_repo)],
         calls = k @ [CallGetRepo ''acme'' ''tools'']\<rparr>)"
  by (simp add: code_defs demo_defs Let_def)

lemma demo_Get_readonly:
  "Get demo_helpers demo_ro_ctx demo_ref \<lparr>server = [((''acme'', ''tools''), demo_public_repo)], calls = k\<rparr>
     = (Inr (demo_handle demo_ro_ctx demo_public_repo),
        \<lparr>server = [((''acme'', ''tools''), demo_public_repo)],
         calls = k @ [CallGetRepo ''acme'' ''tools'']\<rparr>)"
  by (simp add: code_defs demo_defs Let_def)

lemma demo_Get_missing:
  "Get demo_helpers demo_ctx demo_ref \<lparr>server = [], calls = k\<rparr>
     = (Inl ErrNotFound, \<lparr>server = [], calls = k @ [CallGetRepo ''acme'' ''tools'']\<rparr>)"
  by (simp add: code_defs demo_defs Let_def)

lemma demo_Create_missing:
  "Create demo_helpers demo_ctx demo_ref demo_defaulted_info [] \<lparr>server = [], calls = k\<rparr>
     = (Inr (demo_handle demo_ctx demo_repo),
        \<lparr>server = [((''acme'', ''tools''), demo_repo)],
         calls = k @ [CallCreateOrgRepo ''acme'' demo_create]\<rparr>)"
  by (simp add: code_defs demo_defs Let_def)

lemma demo_Equals_same:
  "Equals demo_helpers demo_defaulted_info (handle_Get demo_helpers (demo_handle c demo_repo))"
  by (simp add: demo_defs)

lemma demo_Equals_differ:
  "\<not> Equals demo_helpers demo_defaulted_info (handle_Get demo_helpers (demo_handle c demo_public_repo))"
  by (simp add: demo_defs)

lemma demo_Set_public:
  "handle_Set demo_helpers (demo_handle c demo_public_repo) demo_defaulted_info
     = (None, demo_handle c demo_repo)"
  by (simp add: demo_defs)

lemma demo_Update_stored:
  "handle_Update demo_helpers (demo_handle demo_ctx demo_repo)
       \<lparr>server = [((''acme'', ''tools''), demo_public_repo)], calls = k\<rparr>
     = ((None, demo_handle demo_ctx demo_repo),
        \<lparr>server = [((''acme'', ''tools''), demo_repo), ((''acme'', ''tools''), demo_public_repo)],
         calls = k @ [CallEditRepo ''acme'' ''tools'' demo_edit]\<rparr>)"
  by (simp add: code_defs demo_defs Let_def)

lemma demo_Update_refused:
  "handle_Update demo_helpers (demo_handle demo_ro_ctx demo_repo)
       \<lparr>server = [((''acme'', ''tools''), demo_public_repo)], calls = k\<rparr>
     = ((Some demo_forbidden, demo_handle demo_ro_ctx demo_repo),
        \<lparr>server = [((''acme'', ''tools''), demo_public_repo)],
         calls = k @ [CallEditRepo ''acme'' ''tools'' demo_edit]\<rparr>)"
  by (simp add: code_defs demo_defs Let_def)

section \<open>Token permissions\<close>

text \<open>
  C8. For every client, every token permission and every world, \<open>HasTokenPermission\<close>
  returns \<open>(false, ErrNoProviderSupport)\<close> and leaves the world as it was: the service's
  state is untouched and no SDK call is added to the log.
\<close>

theorem HasTokenPermission_unsupported:
  "HasTokenPermission cl permission w = ((False, Some ErrNoProviderSupport), w)"
  by (simp add: HasTokenPermission_def)

section \<open>Deletion is gated\<close>

text \<open>
  C2. For every owner and repository name: with the destructive-actions flag false,
  \<open>deleteRepo\<close> returns an error that wraps \<open>ErrDestructiveCallDisallowed\<close> and the world
  is unchanged, so no SDK call was made; with the flag true, exactly one call,
  \<open>DeleteRepo owner repo\<close>, is added to the log, the service moves to the state that call
  leaves, and the result is the classification of what the call returned.
\<close>

theorem deleteRepo_gated:
  "(\<not> destructive \<longrightarrow>
      deleteRepo H c owner repo destructive w =
        (Some (Errorf ''cannot delete repository'' ErrDestructiveCallDisallowed), w)
      \<and> errors_Is (Errorf ''cannot delete repository'' ErrDestructiveCallDisallowed)
            ErrDestructiveCallDisallowed)
   \<and> (destructive \<longrightarrow>
        calls (snd (deleteRepo H c owner repo destructive w)) = calls w @ [CallDeleteRepo owner repo]
        \<and> server (snd (deleteRepo H c owner repo destructive w))
            = snd (DeleteRepo c owner repo (server w))
        \<and> fst (deleteRepo H c owner repo destructive w)
            = handleHTTPError H (fst (fst (DeleteRepo c owner repo (server w))))
                (snd (fst (DeleteRepo c owner repo (server w)))))"
  by (simp add: deleteRepo_def invoke_def split: prod.splits)

theorem deleteRepo_gated_witness:
  "deleteRepo demo_helpers mem_sdk ''acme'' ''tools'' False
       (demo_world [((''acme'', ''tools''), demo_repo)])
     = (Some (Errorf ''cannot delete repository'' ErrDestructiveCallDisallowed),
        demo_world [((''acme'', ''tools''), demo_repo)])
   \<and> calls (snd (deleteRepo demo_helpers mem_sdk ''acme'' ''tools'' True
                    (demo_world [((''acme'', ''tools''), demo_repo)])))
       = [CallDeleteRepo ''acme'' ''tools'']
   \<and> server (snd (deleteRepo demo_helpers mem_sdk ''acme'' ''tools'' True
                     (demo_world [((''acme'', ''tools''), demo_repo)])))
       = []
   \<and> fst (deleteRepo demo_helpers mem_sdk ''acme'' ''tools'' True
             (demo_world [((''acme'', ''tools''), demo_repo)]))
       = None"
  using deleteRepo_gated [of False demo_helpers mem_sdk "''acme''" "''tools''"
          "demo_world [((''acme'', ''tools''), demo_repo)]"]
        deleteRepo_gated [of True demo_helpers mem_sdk "''acme''" "''tools''"
          "demo_world [((''acme'', ''tools''), demo_repo)]"]
  by (simp add: demo_world_def mem_sdk_def mem_DeleteRepo_def mem_response_def demo_helpers_def
        demo_base_def demo_handleHTTPError_def)

section \<open>Get\<close>

text \<open>
  C7. For every reference on which \<open>Get\<close> succeeds, the reference of the handle it returns
  is the reference that was requested (and its context is the client's): the handle is
  built from the caller's \<open>ref\<close>, not from the API response.
\<close>

theorem Get_ref:
  "Get H c ref w = (Inr h, w') \<Longrightarrow> h_ref h = ref \<and> h_clientContext h = c"
  by (auto simp: Get_def newOrgRepository_def split: option.splits prod.splits)

theorem Get_ref_witness:
  "Get demo_helpers demo_ctx demo_ref (demo_world [((''acme'', ''tools''), demo_repo)])
     = (Inr (demo_handle demo_ctx demo_repo),
        \<lparr>server = [((''acme'', ''tools''), demo_repo)], calls = [CallGetRepo ''acme'' ''tools'']\<rparr>)
   \<and> h_ref (demo_handle demo_ctx demo_repo) = demo_ref
   \<and> h_clientContext (demo_handle demo_ctx demo_repo) = demo_ctx"
proof -
  have g: "Get demo_helpers demo_ctx demo_ref (demo_world [((''acme'', ''tools''), demo_repo)])
     = (Inr (demo_handle demo_ctx demo_repo),
        \<lparr>server = [((''acme'', ''tools''), demo_repo)], calls = [CallGetRepo ''acme'' ''tools'']\<rparr>)"
    using demo_Get_private [of "[]"] by (simp add: demo_world_def)
  from g Get_ref [OF g] show ?thesis by simp
qed

section \<open>Reconcile\<close>

text \<open>
  The two exits of \<open>Reconcile\<close> that are errors of its collaborators: a \<open>Get\<close> that fails
  with anything but NotFound, and a \<open>Set\<close> that refuses the desired state. Neither takes
  an action.
\<close>

lemma Reconcile_error_exits:
  "(ValidateAndDefaultInfo H req = Inr req' \<and> Get H c ref w = (Inl e, w1) \<and> \<not> errors_Is e ErrNotFound
      \<longrightarrow> Reconcile H c ref req opts w = ((None, False, Some e), w1))
   \<and> (ValidateAndDefaultInfo H req = Inr req' \<and> Get H c ref w = (Inr actual, w1)
        \<and> \<not> Equals H req' (handle_Get H actual) \<and> handle_Set H actual req' = (Some e, actual')
        \<longrightarrow> Reconcile H c ref req opts w = ((Some actual', False, Some e), w1))"
  by (simp add: Reconcile_def reconcileRepository_def)

text \<open>
  C1. \<open>Reconcile\<close>, case by case, for every reference, desired state and world.
  It validates and defaults the info first: when that fails it returns the error with
  the world untouched, and every later step works on the defaulted info \<open>req'\<close>.
  It then attempts \<open>Get\<close>. If \<open>Get\<close> fails with NotFound, the result is that of \<open>Create\<close>
  on the defaulted info, run in the world \<open>Get\<close> left, with \<open>actionTaken = true\<close>.
  If \<open>Get\<close> succeeds and the desired info equals the actual state, the handle is
  returned with \<open>actionTaken = false\<close> and no error, and the world is the one \<open>Get\<close>
  left: the only SDK call was the \<open>GetRepo\<close> of the read, so nothing was written.
  If \<open>Get\<close> succeeds, the desired info differs and \<open>Set\<close> has applied it onto the handle,
  \<open>Update\<close> is run on that handle and the result is the updated handle with
  \<open>actionTaken = true\<close> and \<open>Update\<close>'s error, if any.
\<close>

theorem Reconcile_cases:
  "(ValidateAndDefaultInfo H req = Inl e \<longrightarrow> Reconcile H c ref req opts w = ((None, False, Some e), w))
   \<and> (ValidateAndDefaultInfo H req = Inr req' \<and> Get H c ref w = (Inl e, w1) \<and> errors_Is e ErrNotFound
        \<and> Create H c ref req' opts w1 = (r, w2)
        \<longrightarrow> Reconcile H c ref req opts w =
              ((case r of Inl e' \<Rightarrow> None | Inr resp \<Rightarrow> Some resp, True,
                case r of Inl e' \<Rightarrow> Some e' | Inr resp \<Rightarrow> None), w2))
   \<and> (ValidateAndDefaultInfo H req = Inr req' \<and> Get H c ref w = (Inr actual, w1)
        \<and> Equals H req' (handle_Get H actual)
        \<longrightarrow> Reconcile H c ref req opts w = ((Some actual, False, None), w1)
            \<and> server w1 = snd (GetRepo (ctx_c c) (GetIdentity ref) (GetRepository ref) (server w))
            \<and> calls w1 = calls w @ [CallGetRepo (GetIdentity ref) (GetRepository ref)])
   \<and> (ValidateAndDefaultInfo H req = Inr req' \<and> Get H c ref w = (Inr actual, w1)
        \<and> \<not> Equals H req' (handle_Get H actual) \<and> handle_Set H actual req' = (None, actual')
        \<and> handle_Update H actual' w1 = ((err, actual''), w2)
        \<longrightarrow> Reconcile H c ref req opts w = ((Some actual'', True, err), w2))"
  by (auto simp: Reconcile_def reconcileRepository_def toCreateOpts_id Get_def getRepo_def invoke_def
      split: sum.splits prod.splits option.splits)

theorem Reconcile_cases_witness:
  "Reconcile demo_helpers demo_ctx demo_ref (demo_info\<lparr>info_Visibility := Some Internal\<rparr>) []
       (demo_world [])
     = ((None, False, Some (ValidationError ''Visibility'')), demo_world [])
   \<and> Reconcile demo_helpers demo_ctx demo_ref demo_info [] \<lparr>server = [], calls = []\<rparr>
     = ((Some (demo_handle demo_ctx demo_repo), True, None),
        \<lparr>server = [((''acme'', ''tools''), demo_repo)],
         calls = [CallGetRepo ''acme'' ''tools'', CallCreateOrgRepo ''acme'' demo_create]\<rparr>)
   \<and> Reconcile demo_helpers demo_ctx demo_ref demo_info []
       \<lparr>server = [((''acme'', ''tools''), demo_repo)], calls = []\<rparr>
     = ((Some (demo_handle demo_ctx demo_repo), False, None),
        \<lparr>server = [((''acme'', ''tools''), demo_repo)], calls = [CallGetRepo ''acme'' ''tools'']\<rparr>)
   \<and> Reconcile demo_helpers demo_ctx demo_ref demo_info []
       \<lparr>server = [((''acme'', ''tools''), demo_public_repo)], calls = []\<rparr>
     = ((Some (demo_handle demo_ctx demo_repo), True, None),
        \<lparr>server = [((''acme'', ''tools''), demo_repo), ((''acme'', ''tools''), demo_public_repo)],
         calls = [CallGetRepo ''acme'' ''tools'', CallEditRepo ''acme'' ''tools'' demo_edit]\<rparr>)"
proof -
  note a = Reconcile_cases [THEN conjunct1, THEN mp, OF demo_validate_bad]
  have hb: "ValidateAndDefaultInfo demo_helpers demo_info = Inr demo_defaulted_info
      \<and> Get demo_helpers demo_ctx demo_ref \<lparr>server = [], calls = []\<rparr>
          = (Inl ErrNotFound, \<lparr>server = [], calls = [CallGetRepo ''acme'' ''tools'']\<rparr>)
      \<and> errors_Is ErrNotFound ErrNotFound
      \<and> Create demo_helpers demo_ctx demo_ref demo_defaulted_info []
            \<lparr>server = [], calls = [CallGetRepo ''acme'' ''tools'']\<rparr>
          = (Inr (demo_handle demo_ctx demo_repo),
             \<lparr>server = [((''acme'', ''tools''), demo_repo)],
              calls = [CallGetRepo ''acme'' ''tools'', CallCreateOrgRepo ''acme'' demo_create]\<rparr>)"
    using demo_validate demo_Get_missing [of "[]"]
      demo_Create_missing [of "[CallGetRepo ''acme'' ''tools'']"]
    by simp
  note b = Reconcile_cases [THEN conjunct2, THEN conjunct1, THEN mp, OF hb]
  have hc: "ValidateAndDefaultInfo demo_helpers demo_info = Inr demo_defaulted_info
      \<and> Get demo_helpers demo_ctx demo_ref \<lparr>server = [((''acme'', ''tools''), demo_repo)], calls = []\<rparr>
          = (Inr (demo_handle demo_ctx demo_repo),
             \<lparr>server = [((''acme'', ''tools''), demo_repo)], calls = [CallGetRepo ''acme'' ''tools'']\<rparr>)
      \<and> Equals demo_helpers demo_defaulted_info
            (handle_Get demo_helpers (demo_handle demo_ctx demo_repo))"
    using demo_validate demo_Get_private [of "[]"] demo_Equals_same by simp
  note c = Reconcile_cases [THEN conjunct2, THEN conjunct2, THEN conjunct1, THEN mp, OF hc,
      THEN conjunct1]
  have hd: "ValidateAndDefaultInfo demo_helpers demo_info = Inr demo_defaulted_info
      \<and> Get demo_helpers demo_ctx demo_ref
            \<lparr>server = [((''acme'', ''tools''), demo_public_repo)], calls = []\<rparr>
          = (Inr (demo_handle demo_ctx demo_public_repo),
             \<lparr>server = [((''acme'', ''tools''), demo_public_repo)],
              calls = [CallGetRepo ''acme'' ''tools'']\<rparr>)
      \<and> \<not> Equals demo_helpers demo_defaulted_info
            (handle_Get demo_helpers (demo_handle demo_ctx demo_public_repo))
      \<and> handle_Set demo_helpers (demo_handle demo_ctx demo_public_repo) demo_defaulted_info
          = (None, demo_handle demo_ctx demo_repo)
      \<and> handle_Update demo_helpers (demo_handle demo_ctx demo_repo)
            \<lparr>server = [((''acme'', ''tools''), demo_public_repo)],
             calls = [CallGetRepo ''acme'' ''tools'']\<rparr>
          = ((None, demo_handle demo_ctx demo_repo),
             \<lparr>server = [((''acme'', ''tools''), demo_repo), ((''acme'', ''tools''), demo_public_repo)],
              calls = [CallGetRepo ''acme'' ''tools'', CallEditRepo ''acme'' ''tools'' demo_edit]\<rparr>)"
    using demo_validate demo_Get_public [of "[]"] demo_Equals_differ demo_Set_public
      demo_Update_stored [of "[CallGetRepo ''acme'' ''tools'']"]
    by simp
  note d = Reconcile_cases [THEN conjunct2, THEN conjunct2, THEN conjunct2, THEN mp, OF hd]
  from a b c d show ?thesis by simp
qed

text \<open>
  C10. When the desired state differs from the actual state, \<open>Set\<close> has applied it and
  the \<open>Update\<close> call fails with \<open>e\<close>, \<open>reconcileRepository\<close> returns \<open>actionTaken = true\<close>
  together with \<open>e\<close>; and so does \<open>Reconcile\<close>, when its validation gave the desired state
  and its \<open>Get\<close> the handle. \<open>actionTaken = true\<close> does not say that the write succeeded.
\<close>

theorem reconcile_update_fails:
  "\<not> Equals H req (handle_Get H actual) \<Longrightarrow> handle_Set H actual req = (None, actual')
   \<Longrightarrow> handle_Update H actual' w = ((Some e, actual''), w')
   \<Longrightarrow> reconcileRepository H actual req w = (((True, Some e), actual''), w')
       \<and> (ValidateAndDefaultInfo H req0 = Inr req \<and> Get H c ref w0 = (Inr actual, w)
            \<longrightarrow> Reconcile H c ref req0 opts w0 = ((Some actual'', True, Some e), w'))"
  by (simp add: reconcileRepository_def Reconcile_def)

theorem reconcile_update_fails_witness:
  "reconcileRepository demo_helpers (demo_handle demo_ro_ctx demo_public_repo) demo_defaulted_info
       \<lparr>server = [((''acme'', ''tools''), demo_public_repo)], calls = [CallGetRepo ''acme'' ''tools'']\<rparr>
     = (((True, Some demo_forbidden), demo_handle demo_ro_ctx demo_repo),
        \<lparr>server = [((''acme'', ''tools''), demo_public_repo)],
         calls = [CallGetRepo ''acme'' ''tools'', CallEditRepo ''acme'' ''tools'' demo_edit]\<rparr>)
   \<and> Reconcile demo_helpers demo_ro_ctx demo_ref demo_info []
       \<lparr>server = [((''acme'', ''tools''), demo_public_repo)], calls = []\<rparr>
     = ((Some (demo_handle demo_ro_ctx demo_repo), True, Some demo_forbidden),
        \<lparr>server = [((''acme'', ''tools''), demo_public_repo)],
         calls = [CallGetRepo ''acme'' ''tools'', CallEditRepo ''acme'' ''tools'' demo_edit]\<rparr>)"
proof -
  have u: "handle_Update demo_helpers (demo_handle demo_ro_ctx demo_repo)
       \<lparr>server = [((''acme'', ''tools''), demo_public_repo)], calls = [CallGetRepo ''acme'' ''tools'']\<rparr>
     = ((Some demo_forbidden, demo_handle demo_ro_ctx demo_repo),
        \<lparr>server = [((''acme'', ''tools''), demo_public_repo)],
         calls = [CallGetRepo ''acme'' ''tools'', CallEditRepo ''acme'' ''tools'' demo_edit]\<rparr>)"
    using demo_Update_refused [of "[CallGetRepo ''acme'' ''tools'']"] by simp
  have g: "ValidateAndDefaultInfo demo_helpers demo_info = Inr demo_defaulted_info
      \<and> Get demo_helpers demo_ro_ctx demo_ref
            \<lparr>server = [((''acme'', ''tools''), demo_public_repo)], calls = []\<rparr>
          = (Inr (demo_handle demo_ro_ctx demo_public_repo),
             \<lparr>server = [((''acme'', ''tools''), demo_public_repo)],
              calls = [CallGetRepo ''acme'' ''tools'']\<rparr>)"
    using demo_validate demo_Get_readonly [of "[]"] by simp
  note r = reconcile_update_fails [OF demo_Equals_differ demo_Set_public u]
  from r [THEN conjunct1] r [THEN conjunct2, THEN mp, OF g] show ?thesis by simp
qed

section \<open>Create and the license template\<close>

lemma license_lookup:
  "map_index knownLicenseTemplateMap t =
     (if t = ''apache-2.0'' then ''Apache-2.0'' else if t = ''mit'' then ''MIT''
      else if t = ''gpl-3.0'' then ''GPL-3.0-only'' else [])"
  by (simp add: map_index_def knownLicenseTemplateMap_def)

lemma applyCreateOptions_license:
  "LicenseTemplate o' = Some t \<Longrightarrow>
     create_License (applyCreateOptions o' apiOpts) = map_index knownLicenseTemplateMap t"
  by (simp add: applyCreateOptions_def Let_def split: option.splits)

lemma createRepo_calls:
  "calls (snd (createRepo H c orgName apiOpts w)) =
     calls w @ [if orgName \<noteq> [] then CallCreateOrgRepo orgName apiOpts else CallCreateRepo apiOpts]"
  by (simp add: createRepo_def invoke_def split: prod.splits)

text \<open>
  C4. For every license-template option \<open>t\<close> given to \<open>Create\<close> (the reference is valid,
  the info validates and the options assemble with \<open>LicenseTemplate = t\<close>): \<open>Create\<close>
  issues exactly one SDK call, the create request, and the \<open>License\<close> field of that
  request is \<open>Apache-2.0\<close> for \<open>apache-2.0\<close>, \<open>MIT\<close> for \<open>mit\<close>, \<open>GPL-3.0-only\<close> for
  \<open>gpl-3.0\<close>, and the empty string for every template that is absent from the
  three-entry table: such a template goes through the lookup unmapped, and what the
  request carries is the lookup's zero value, not the template.
\<close>

theorem license_template_mapping:
  assumes "validateOrgRepositoryRef H ref (domain c) = None"
    and "ValidateAndDefaultInfo H req = Inr req'"
    and "MakeRepositoryCreateOptions H opts = Inr o'"
    and "LicenseTemplate o' = Some t"
  shows "calls (snd (Create H c ref req opts w)) =
           calls w @ [if Organization (OrganizationRef ref) \<noteq> []
                      then CallCreateOrgRepo (Organization (OrganizationRef ref))
                             (applyCreateOptions o' (repositoryToAPI H req' ref))
                      else CallCreateRepo (applyCreateOptions o' (repositoryToAPI H req' ref))]
         \<and> create_License (applyCreateOptions o' (repositoryToAPI H req' ref)) =
             (if t = ''apache-2.0'' then ''Apache-2.0'' else if t = ''mit'' then ''MIT''
              else if t = ''gpl-3.0'' then ''GPL-3.0-only'' else [])"
proof -
  have "snd (Create H c ref req opts w) =
          snd (createRepo H (ctx_c c) (Organization (OrganizationRef ref))
                 (applyCreateOptions o' (repositoryToAPI H req' ref)) w)"
    using assms by (simp add: Create_def createRepository_def split: prod.splits option.splits)
  then show ?thesis
    using assms(4) by (simp add: createRepo_calls applyCreateOptions_license license_lookup)
qed

theorem license_template_mapping_witness:
  "calls (snd (Create demo_helpers demo_ctx demo_ref demo_info
                 [\<lparr>AutoInit = None, LicenseTemplate = Some ''mit''\<rparr>] (demo_world [])))
     = [CallCreateOrgRepo ''acme'' (demo_create\<lparr>create_License := ''MIT''\<rparr>)]
   \<and> calls (snd (Create demo_helpers demo_ctx demo_ref demo_info
                 [\<lparr>AutoInit = None, LicenseTemplate = Some ''apache-2.0''\<rparr>] (demo_world [])))
     = [CallCreateOrgRepo ''acme'' (demo_create\<lparr>create_License := ''Apache-2.0''\<rparr>)]
   \<and> calls (snd (Create demo_helpers demo_ctx demo_ref demo_info
                 [\<lparr>AutoInit = None, LicenseTemplate = Some ''gpl-3.0''\<rparr>] (demo_world [])))
     = [CallCreateOrgRepo ''acme'' (demo_create\<lparr>create_License := ''GPL-3.0-only''\<rparr>)]
   \<and> calls (snd (Create demo_helpers demo_ctx demo_ref demo_info
                 [\<lparr>AutoInit = None, LicenseTemplate = Some ''bsd-3-clause''\<rparr>] (demo_world [])))
     = [CallCreateOrgRepo ''acme'' (demo_create\<lparr>create_License := []\<rparr>)]"
proof -
  have v: "validateOrgRepositoryRef demo_helpers demo_ref (domain demo_ctx) = None"
    by (simp add: demo_defs)
  have m: "MakeRepositoryCreateOptions demo_helpers [\<lparr>AutoInit = None, LicenseTemplate = Some t\<rparr>]
             = Inr \<lparr>AutoInit = None, LicenseTemplate = Some t\<rparr>" for t
    by (simp add: demo_defs)
  have l: "LicenseTemplate \<lparr>AutoInit = None, LicenseTemplate = Some t\<rparr> = Some t" for t :: string
    by simp
  have r: "applyCreateOptions \<lparr>AutoInit = None, LicenseTemplate = Some t\<rparr>
             (repositoryToAPI demo_helpers demo_defaulted_info demo_ref)
           = demo_create\<lparr>create_License := create_License
               (applyCreateOptions \<lparr>AutoInit = None, LicenseTemplate = Some t\<rparr>
                  (repositoryToAPI demo_helpers demo_defaulted_info demo_ref))\<rparr>" for t
    by (simp add: applyCreateOptions_def demo_defs)
  note k = license_template_mapping [OF v demo_validate m l, of _ "demo_world []"]
  have o: "Organization (OrganizationRef demo_ref) = ''acme''" "calls (demo_world []) = []"
    by (simp_all add: demo_defs)
  show ?thesis
    using k [of "''mit''"] k [of "''apache-2.0''"] k [of "''gpl-3.0''"] k [of "''bsd-3-clause''"]
      r [of "''mit''"] r [of "''apache-2.0''"] r [of "''gpl-3.0''"] r [of "''bsd-3-clause''"]
    by (simp add: o)
qed

section \<open>Client construction\<close>

text \<open>\<open>strings_Contains\<close> is the substring test.\<close>

lemma strings_HasPrefix_iff: "strings_HasPrefix s p \<longleftrightarrow> (\<exists>q. s = p @ q)"
  by (induction s p rule: strings_HasPrefix.induct) auto

lemma strings_Contains_iff: "strings_Contains s sub \<longleftrightarrow> (\<exists>p q. s = p @ sub @ q)"
proof (induction s)
  case Nil
  then show ?case by simp
next
  case (Cons x xs)
  show ?case
  proof
    assume "strings_Contains (x # xs) sub"
    then consider "strings_HasPrefix (x # xs) sub" | "strings_Contains xs sub" by auto
    then show "\<exists>p q. x # xs = p @ sub @ q"
    proof cases
      case 1
      then obtain q where "x # xs = sub @ q" by (auto simp: strings_HasPrefix_iff)
      then have "x # xs = [] @ sub @ q" by simp
      then show ?thesis by blast
    next
      case 2
      then obtain p q where "xs = p @ sub @ q" using Cons.IH by auto
      then have "x # xs = (x # p) @ sub @ q" by simp
      then show ?thesis by blast
    qed
  next
    assume "\<exists>p q. x # xs = p @ sub @ q"
    then obtain p q where pq: "x # xs = p @ sub @ q" by blast
    show "strings_Contains (x # xs) sub"
    proof (cases p)
      case Nil
      with pq have "strings_HasPrefix (x # xs) sub" by (auto simp: strings_HasPrefix_iff)
      then show ?thesis by simp
    next
      case (Cons y ys)
      with pq have "xs = ys @ sub @ q" by simp
      then have "strings_Contains xs sub" using Cons.IH by blast
      then show ?thesis by simp
    qed
  qed
qed

text \<open>
  C9. For every domain \<open>d\<close> passed at construction that does not contain \<open>://\<close> (the options
  assemble and the HTTP client is built): the base URL handed to the SDK's constructor is
  \<open>https://d/\<close>, \<open>NewClient\<close> fails exactly when that constructor does, and the client it
  returns otherwise reports the un-prefixed \<open>d\<close> as its \<open>SupportedDomain\<close> and holds the
  SDK client the constructor gave.
\<close>

theorem NewClient_https_default:
  assumes "mk optFns = Inr opts"
    and "build (TransportChain opts) = Inr httpClient"
    and "opt_Domain opts = Some d"
    and "\<not> strings_Contains d ''://''"
  shows "NewClient mk build sdkNew token optFns =
           (case sdkNew (''https://'' @ d @ ''/'') httpClient token of
              Inl e \<Rightarrow> Inl e
            | Inr gt \<Rightarrow> Inr (newClient gt d
                 (case EnableDestructiveAPICalls opts of Some b \<Rightarrow> b | None \<Rightarrow> False)))
         \<and> (sdkNew (''https://'' @ d @ ''/'') httpClient token = Inr gt \<longrightarrow>
              (\<exists>cl. NewClient mk build sdkNew token optFns = Inr cl
                    \<and> SupportedDomain cl = d \<and> Raw cl = gt))"
  using assms
  by (simp add: NewClient_def Let_def SupportedDomain_def Raw_def newClient_def split: sum.splits)

theorem NewClient_https_default_witness:
  "NewClient demo_mk demo_build demo_sdkNew ''token'' []
     = Inr (newClient mem_sdk ''git.example.com:6443'' False)
   \<and> SupportedDomain (newClient mem_sdk ''git.example.com:6443'' False) = ''git.example.com:6443''"
proof -
  have a: "demo_mk [] = Inr \<lparr>opt_Domain = Some ''git.example.com:6443'',
                          EnableDestructiveAPICalls = None, TransportChain = ()\<rparr>"
    by (simp add: demo_mk_def)
  have b: "demo_build (TransportChain \<lparr>opt_Domain = Some ''git.example.com:6443'',
                          EnableDestructiveAPICalls = None, TransportChain = ()\<rparr>) = Inr ()"
    by (simp add: demo_build_def)
  have c: "opt_Domain \<lparr>opt_Domain = Some ''git.example.com:6443'',
                          EnableDestructiveAPICalls = None, TransportChain = ()\<rparr>
             = Some ''git.example.com:6443''"
    by simp
  have d: "\<not> strings_Contains ''git.example.com:6443'' ''://''"
    by simp
  have e: "demo_sdkNew (''https://'' @ ''git.example.com:6443'' @ ''/'') () ''token'' = Inr mem_sdk"
    by (simp add: demo_sdkNew_def)
  note k = NewClient_https_default [where mk = demo_mk and build = demo_build and optFns = "[]"
      and sdkNew = demo_sdkNew and token = "''token''", OF a b c d]
  from k [THEN conjunct1] k [THEN conjunct2, THEN mp, OF e] e show ?thesis
    by (auto simp: SupportedDomain_def newClient_def)
qed

section \<open>Invalid references\<close>

text \<open>
  On the code alone: whenever the validator rejects the reference, \<open>Get\<close>, \<open>Create\<close> and
  \<open>List\<close> return its error and leave the world as it was, so no SDK call was made.
\<close>

lemma validation_precedes_calls:
  "(validateOrgRepositoryRef H ref (domain c) = Some e
      \<longrightarrow> Get H c ref w = (Inl e, w) \<and> Create H c ref req opts w = (Inl e, w))
   \<and> (validateOrganizationRef H org (domain c) = Some e \<longrightarrow> List H c org w = Some (Inl e, w))"
  by (simp add: Get_def Create_def List_def)

text \<open>
  C5. With the validators as the spec describes them: for every repository reference
  whose domain is not the client's configured domain, or whose owner or name is not
  syntactically valid, \<open>Get\<close> and \<open>Create\<close> fail with a validation error and the world is
  unchanged (no SDK call); and for every organization reference whose domain does not
  match or whose name is not valid, \<open>List\<close> does.
\<close>

theorem invalid_ref_rejected:
  assumes "validateOrgRepositoryRef H = validateOrgRepositoryRef_spec valid"
    and "validateOrganizationRef H = validateOrganizationRef_spec valid"
  shows "(Domain (OrganizationRef ref) \<noteq> domain c \<or> \<not> valid (Organization (OrganizationRef ref))
            \<or> \<not> valid (RepositoryName ref)
          \<longrightarrow> (\<exists>e. is_ValidationError e \<and> Get H c ref w = (Inl e, w)
                    \<and> Create H c ref req opts w = (Inl e, w)))
         \<and> (Domain org \<noteq> domain c \<or> \<not> valid (Organization org)
             \<longrightarrow> (\<exists>e. is_ValidationError e \<and> List H c org w = Some (Inl e, w)))"
  using assms
  by (auto simp: Get_def Create_def List_def validateOrgRepositoryRef_spec_def
      validateOrganizationRef_spec_def)

theorem invalid_ref_rejected_witness:
  "Domain (OrganizationRef foreign_ref) \<noteq> domain demo_ctx
   \<and> Get demo_helpers demo_ctx foreign_ref (demo_world [((''acme'', ''tools''), demo_repo)])
       = (Inl (ValidationError ''domain not supported''), demo_world [((''acme'', ''tools''), demo_repo)])
   \<and> Create demo_helpers demo_ctx foreign_ref demo_info [] (demo_world [])
       = (Inl (ValidationError ''domain not supported''), demo_world [])
   \<and> List demo_helpers demo_ctx foreign_org (demo_world [((''acme'', ''tools''), demo_repo)])
       = Some (Inl (ValidationError ''domain not supported''),
               demo_world [((''acme'', ''tools''), demo_repo)])
   \<and> \<not> demo_valid (RepositoryName nameless_ref)
   \<and> Get demo_helpers demo_ctx nameless_ref (demo_world [])
       = (Inl (ValidationError ''invalid repository name''), demo_world [])
   \<and> Create demo_helpers demo_ctx nameless_ref demo_info [] (demo_world [])
       = (Inl (ValidationError ''invalid repository name''), demo_world [])"
proof -
  have h1: "validateOrgRepositoryRef demo_helpers = validateOrgRepositoryRef_spec demo_valid"
    and h2: "validateOrganizationRef demo_helpers = validateOrganizationRef_spec demo_valid"
    by (simp_all add: demo_helpers_def demo_base_def)
  have f: "Domain (OrganizationRef foreign_ref) \<noteq> domain demo_ctx"
    and fo: "Domain foreign_org \<noteq> domain demo_ctx"
    and n: "\<not> demo_valid (RepositoryName nameless_ref)"
    by (simp_all add: demo_defs)
  have vf: "validateOrgRepositoryRef demo_helpers foreign_ref (domain demo_ctx)
              = Some (ValidationError ''domain not supported'')"
    and vo: "validateOrganizationRef demo_helpers foreign_org (domain demo_ctx)
              = Some (ValidationError ''domain not supported'')"
    and vn: "validateOrgRepositoryRef demo_helpers nameless_ref (domain demo_ctx)
              = Some (ValidationError ''invalid repository name'')"
    by (simp_all add: demo_defs)
  note k = invalid_ref_rejected [OF h1 h2]
  from k [THEN conjunct1, THEN mp, OF disjI1, OF f]
  have a: "Get demo_helpers demo_ctx foreign_ref w = (Inl (ValidationError ''domain not supported''), w)
           \<and> Create demo_helpers demo_ctx foreign_ref req opts w
               = (Inl (ValidationError ''domain not supported''), w)" for w req opts
    by (auto simp add: Get_def vf)
  from k [THEN conjunct2, THEN mp, OF disjI1, OF fo]
  have b: "List demo_helpers demo_ctx foreign_org w
             = Some (Inl (ValidationError ''domain not supported''), w)" for w
    by (auto simp add: List_def vo)
  have c: "Get demo_helpers demo_ctx nameless_ref w
             = (Inl (ValidationError ''invalid repository name''), w)
           \<and> Create demo_helpers demo_ctx nameless_ref req opts w
               = (Inl (ValidationError ''invalid repository name''), w)" for w req opts
    using k [where c = demo_ctx and w = w and req = req and opts = opts,
        THEN conjunct1, THEN mp, OF disjI2, OF disjI2, OF n]
    by (auto simp add: Get_def vn)
  from f n a b c show ?thesis by simp
qed

section \<open>List\<close>

text \<open>One run of the loop of \<open>allPages\<close> over the closure of \<open>listOrgRepos\<close>.\<close>

lemma allPages_next:
  assumes "ListOrgRepos c org opts (server w) = ((objs, Some r, None), s')" and "objs \<noteq> []"
  shows "allPages listOrgRepos_upd (listOrgRepos_page c org) (opts, acc, w) =
           allPages listOrgRepos_upd (listOrgRepos_page c org)
             (opts\<lparr>ListOptions := (ListOptions opts)\<lparr>Page := Page (ListOptions opts) + 1\<rparr>\<rparr>,
              acc @ objs, \<lparr>server = s', calls = calls w @ [CallListOrgRepos org opts]\<rparr>)"
  using assms
  by (subst allPages.simps) (simp add: listOrgRepos_page_def listOrgRepos_upd_def invoke_def)

lemma allPages_empty_page:
  assumes "ListOrgRepos c org opts (server w) = (([], resp, err), s')"
  shows "allPages listOrgRepos_upd (listOrgRepos_page c org) (opts, acc, w) =
           Some (None, (opts, acc, \<lparr>server = s', calls = calls w @ [CallListOrgRepos org opts]\<rparr>))"
  using assms
  by (subst allPages.simps) (simp add: listOrgRepos_page_def invoke_def)

lemma allPages_failed_page:
  assumes "ListOrgRepos c org opts (server w) = ((objs, resp, Some e), s')" and "objs \<noteq> []"
  shows "allPages listOrgRepos_upd (listOrgRepos_page c org) (opts, acc, w) =
           Some (Some e, (opts, acc @ objs,
                          \<lparr>server = s', calls = calls w @ [CallListOrgRepos org opts]\<rparr>))"
  using assms
  by (subst allPages.simps) (simp add: listOrgRepos_page_def invoke_def)

lemma page_opts_next:
  "(page_opts k)\<lparr>ListOptions := (ListOptions (page_opts k))\<lparr>Page := Page (ListOptions (page_opts k)) + 1\<rparr>\<rparr>
     = page_opts (Suc k)"
  by (simp add: page_opts_def)

text \<open>
  After \<open>n\<close> pages that each return objects, a response and no error, the loop stands at
  page \<open>k + n\<close> with the pages' objects accumulated in the order returned. \<open>srv i\<close> is
  the service's state before call \<open>i\<close>.
\<close>

lemma allPages_prefix:
  assumes "\<And>i. i < n \<Longrightarrow> \<exists>r. ListOrgRepos c org (page_opts (k + i)) (srv i)
                               = ((objs i, Some r, None), srv (Suc i)) \<and> objs i \<noteq> []"
  shows "allPages listOrgRepos_upd (listOrgRepos_page c org)
           (page_opts k, acc, \<lparr>server = srv 0, calls = cs\<rparr>) =
         allPages listOrgRepos_upd (listOrgRepos_page c org)
           (page_opts (k + n), acc @ concat (map objs [0..<n]),
            \<lparr>server = srv n,
             calls = cs @ map (\<lambda>i. CallListOrgRepos org (page_opts (k + i))) [0..<n]\<rparr>)"
  using assms
proof (induction n arbitrary: k acc srv objs cs)
  case 0
  then show ?case by simp
next
  case (Suc n)
  from Suc.prems [of 0] obtain r where
    p0: "ListOrgRepos c org (page_opts k) (srv 0) = ((objs 0, Some r, None), srv (Suc 0))"
    and ne: "objs 0 \<noteq> []" by auto
  have step: "allPages listOrgRepos_upd (listOrgRepos_page c org)
           (page_opts k, acc, \<lparr>server = srv 0, calls = cs\<rparr>) =
        allPages listOrgRepos_upd (listOrgRepos_page c org)
           (page_opts (Suc k), acc @ objs 0,
            \<lparr>server = srv (Suc 0), calls = cs @ [CallListOrgRepos org (page_opts k)]\<rparr>)"
    using allPages_next [of c org "page_opts k" "\<lparr>server = srv 0, calls = cs\<rparr>" "objs 0" r
        "srv (Suc 0)" acc] p0 ne
    by (simp add: page_opts_next)
  have rest: "allPages listOrgRepos_upd (listOrgRepos_page c org)
           (page_opts (Suc k), acc @ objs 0,
            \<lparr>server = (\<lambda>i. srv (Suc i)) 0, calls = cs @ [CallListOrgRepos org (page_opts k)]\<rparr>) =
         allPages listOrgRepos_upd (listOrgRepos_page c org)
           (page_opts (Suc k + n), (acc @ objs 0) @ concat (map (\<lambda>i. objs (Suc i)) [0..<n]),
            \<lparr>server = (\<lambda>i. srv (Suc i)) n,
             calls = (cs @ [CallListOrgRepos org (page_opts k)])
               @ map (\<lambda>i. CallListOrgRepos org (page_opts (Suc k + i))) [0..<n]\<rparr>)"
  proof (rule Suc.IH)
    fix i assume "i < n"
    then have "Suc i < Suc n" by simp
    from Suc.prems [OF this]
    show "\<exists>r. ListOrgRepos c org (page_opts (Suc k + i)) (srv (Suc i))
               = ((objs (Suc i), Some r, None), srv (Suc (Suc i))) \<and> objs (Suc i) \<noteq> []"
      by simp
  qed
  have c1: "concat (map objs [0..<Suc n]) = objs 0 @ concat (map (\<lambda>i. objs (Suc i)) [0..<n])"
    by (simp add: map_upt_Suc del: upt_Suc)
  have c2: "map (\<lambda>i. CallListOrgRepos org (page_opts (k + i))) [0..<Suc n]
              = CallListOrgRepos org (page_opts k)
                # map (\<lambda>i. CallListOrgRepos org (page_opts (Suc k + i))) [0..<n]"
    by (simp add: map_upt_Suc del: upt_Suc)
  show ?case
    using step rest by (simp add: c1 c2 del: upt_Suc)
qed

text \<open>
  The listing stops at the first page that returns zero items, with the objects of the
  pages before it in order. This holds whatever response and error came with the empty
  page: the closure returns \<open>nil, nil\<close> for it, so an error of the SDK on an empty page
  is dropped and the listing ends as if complete.
\<close>

lemma listOrgRepos_stops_at_empty_page:
  assumes "\<And>i. i < n \<Longrightarrow> \<exists>r. ListOrgRepos (ctx_c c) org (page_opts i) (srv i)
                               = ((objs i, Some r, None), srv (Suc i)) \<and> objs i \<noteq> []"
    and "ListOrgRepos (ctx_c c) org (page_opts n) (srv n) = (([], resp, err), s_end)"
    and "server w = srv 0"
  shows "listOrgRepos H c org w =
           Some (validateRepositoryObjects H (concat (map objs [0..<n])),
                 \<lparr>server = s_end,
                  calls = calls w @ map (\<lambda>i. CallListOrgRepos org (page_opts i)) [0..<Suc n]\<rparr>)"
proof -
  have w: "w = \<lparr>server = srv 0, calls = calls w\<rparr>" using assms(3) by simp
  have "allPages listOrgRepos_upd (listOrgRepos_page (ctx_c c) org) (page_opts 0, [], w) =
          allPages listOrgRepos_upd (listOrgRepos_page (ctx_c c) org)
            (page_opts (0 + n), [] @ concat (map objs [0..<n]),
             \<lparr>server = srv n,
              calls = calls w @ map (\<lambda>i. CallListOrgRepos org (page_opts (0 + i))) [0..<n]\<rparr>)"
    by (subst w, rule allPages_prefix) (use assms(1) in simp)
  also have "\<dots> = Some (None, (page_opts n, concat (map objs [0..<n]),
             \<lparr>server = s_end,
              calls = calls w @ map (\<lambda>i. CallListOrgRepos org (page_opts i)) [0..<Suc n]\<rparr>))"
    using assms(2) by (simp add: allPages_empty_page)
  finally show ?thesis
    by (simp add: listOrgRepos_def page_opts_def)
qed

text \<open>A page that returns objects together with an error aborts the listing with that error.\<close>

lemma listOrgRepos_aborts_on_failed_page:
  assumes "\<And>i. i < n \<Longrightarrow> \<exists>r. ListOrgRepos (ctx_c c) org (page_opts i) (srv i)
                               = ((objs i, Some r, None), srv (Suc i)) \<and> objs i \<noteq> []"
    and "ListOrgRepos (ctx_c c) org (page_opts n) (srv n) = ((objs n, resp, Some e), s_end)"
    and "objs n \<noteq> []"
    and "server w = srv 0"
  shows "listOrgRepos H c org w =
           Some (Inl e,
                 \<lparr>server = s_end,
                  calls = calls w @ map (\<lambda>i. CallListOrgRepos org (page_opts i)) [0..<Suc n]\<rparr>)"
proof -
  have w: "w = \<lparr>server = srv 0, calls = calls w\<rparr>" using assms(4) by simp
  have "allPages listOrgRepos_upd (listOrgRepos_page (ctx_c c) org) (page_opts 0, [], w) =
          allPages listOrgRepos_upd (listOrgRepos_page (ctx_c c) org)
            (page_opts (0 + n), [] @ concat (map objs [0..<n]),
             \<lparr>server = srv n,
              calls = calls w @ map (\<lambda>i. CallListOrgRepos org (page_opts (0 + i))) [0..<n]\<rparr>)"
    by (subst w, rule allPages_prefix) (use assms(1) in simp)
  also have "\<dots> = Some (Some e, (page_opts n, concat (map objs [0..<n]) @ objs n,
             \<lparr>server = s_end,
              calls = calls w @ map (\<lambda>i. CallListOrgRepos org (page_opts i)) [0..<Suc n]\<rparr>))"
    using assms(2,3) by (simp add: allPages_failed_page)
  finally show ?thesis
    by (simp add: listOrgRepos_def page_opts_def)
qed

text \<open>
  C3. The claim says that an error of any page's fetch aborts the listing and reaches the
  caller, also when the erroring page is empty. The code drops it: here the first page
  gives one repository, the second fails with status 500 and no objects (the SDK's own
  shape of a failure), and \<open>List\<close> returns the first page's repository and no error.
\<close>

theorem List_drops_error_of_empty_page:
  "ListOrgRepos (ctx_c failing_ctx) ''acme'' (page_opts 1) []
     = (([], mem_response 500, Some (HTTPError ''500 Internal Server Error'')), [])
   \<and> List demo_helpers failing_ctx demo_org (demo_world [])
     = Some (Inr [newOrgRepository failing_ctx (Some one_repo)
                    \<lparr>OrganizationRef = demo_org, RepositoryName = ''one''\<rparr>],
             \<lparr>server = [],
              calls = [CallListOrgRepos ''acme'' (page_opts 0), CallListOrgRepos ''acme'' (page_opts 1)]\<rparr>)"
proof -
  have p0: "ListOrgRepos (ctx_c failing_ctx) ''acme'' (page_opts 0) []
              = (([Some one_repo], Some \<lparr>StatusCode = 200\<rparr>, None), [])"
    and p1: "ListOrgRepos (ctx_c failing_ctx) ''acme'' (page_opts 1) []
              = (([], mem_response 500, Some (HTTPError ''500 Internal Server Error'')), [])"
    by (simp_all add: failing_ctx_def failing_sdk_def failing_ListOrgRepos_def page_opts_def
        mem_sdk_def mem_response_def one_repo_def)
  have "listOrgRepos demo_helpers failing_ctx ''acme'' (demo_world [])
          = Some (validateRepositoryObjects demo_helpers (concat (map (\<lambda>i. [Some one_repo]) [0..<1])),
                  \<lparr>server = [],
                   calls = calls (demo_world [])
                     @ map (\<lambda>i. CallListOrgRepos ''acme'' (page_opts i)) [0..<Suc 1]\<rparr>)"
  proof (rule listOrgRepos_stops_at_empty_page [where srv = "\<lambda>i. []"])
    fix i :: nat
    assume "i < 1"
    then have "i = 0" by simp
    with p0 show "\<exists>r. ListOrgRepos (ctx_c failing_ctx) ''acme'' (page_opts i) []
                    = (([Some one_repo], Some r, None), []) \<and> [Some one_repo] \<noteq> []"
      by simp
  next
    show "ListOrgRepos (ctx_c failing_ctx) ''acme'' (page_opts 1) []
            = (([], mem_response 500, Some (HTTPError ''500 Internal Server Error'')), [])"
      by (rule p1)
  next
    show "server (demo_world []) = []" by (simp add: demo_world_def)
  qed
  then have l: "listOrgRepos demo_helpers failing_ctx ''acme'' (demo_world [])
          = Some (Inr [Some one_repo],
                  \<lparr>server = [],
                   calls = [CallListOrgRepos ''acme'' (page_opts 0),
                            CallListOrgRepos ''acme'' (page_opts 1)]\<rparr>)"
    by (simp add: validateRepositoryObjects_def demo_helpers_def demo_base_def
        demo_validateRepositoryAPI_def one_repo_def demo_world_def)
  have v: "validateOrganizationRef demo_helpers demo_org (domain failing_ctx) = None"
    by (simp add: demo_defs failing_ctx_def)
  have "List demo_helpers failing_ctx demo_org (demo_world [])
     = Some (Inr [newOrgRepository failing_ctx (Some one_repo)
                    \<lparr>OrganizationRef = demo_org, RepositoryName = ''one''\<rparr>],
             \<lparr>server = [],
              calls = [CallListOrgRepos ''acme'' (page_opts 0), CallListOrgRepos ''acme'' (page_opts 1)]\<rparr>)"
    using l v by (simp add: List_def demo_org_def one_repo_def)
  with p1 show ?thesis by simp
qed

section \<open>Reconciling twice\<close>




















end
